theory Spec2Isabelle
  imports Main
begin

section \<open>JavaScript values, objects and exceptions\<close>

text \<open>
  The service is a NestJS application written in TypeScript. Plain objects that cross a
  boundary (token payloads, decoded tokens, response bodies) are modelled as association
  lists from property names to values, in the order the object literal lists them; a
  property that is read but absent yields \<open>undefined\<close>. Strings are lists of 8-bit
  characters, one \<open>char\<close> per code unit.
\<close>

datatype js_value = JUndefined | JNull | JBool bool | JNum int | JStr string | JFun string

type_synonym js_object = "(string \<times> js_value) list"

definition getProp :: "js_object \<Rightarrow> string \<Rightarrow> js_value" where
  "getProp obj k = (case map_of obj k of None \<Rightarrow> JUndefined | Some v \<Rightarrow> v)"

definition ownKeys :: "js_object \<Rightarrow> string list" where
  "ownKeys obj = map fst obj"

text \<open>
  What a library call can throw. Usually it is an error object (\<open>new Error(msg)\<close>, a
  Prisma error with its \<open>code\<close>, a \<open>JsonWebTokenError\<close>), of which the sources read
  \<open>code\<close> and \<open>message\<close>, either of which may be undefined. JavaScript lets any value
  be thrown, though, and on \<open>null\<close> or \<open>undefined\<close> reading a property is itself a
  \<open>TypeError\<close>.
\<close>

datatype js_error = JsNull | JsUndefined | JsError "string option" "string option"

definition TypeError :: "string \<Rightarrow> js_error" where
  "TypeError message = JsError None (Some message)"

text \<open>\<open>error.code\<close> and \<open>error.message\<close>: the value read, or the \<open>TypeError\<close> raised.\<close>

fun error_code :: "js_error \<Rightarrow> js_error + string option" where
  "error_code (JsError c m) = Inr c"
| "error_code JsNull =
     Inl (TypeError (''Cannot read properties of null (reading '' @ [CHR 0x27] @ ''code''
                     @ [CHR 0x27] @ '')''))"
| "error_code JsUndefined =
     Inl (TypeError (''Cannot read properties of undefined (reading '' @ [CHR 0x27] @ ''code''
                     @ [CHR 0x27] @ '')''))"

fun error_message :: "js_error \<Rightarrow> js_error + string option" where
  "error_message (JsError c m) = Inr m"
| "error_message JsNull =
     Inl (TypeError (''Cannot read properties of null (reading '' @ [CHR 0x27] @ ''message''
                     @ [CHR 0x27] @ '')''))"
| "error_message JsUndefined =
     Inl (TypeError (''Cannot read properties of undefined (reading '' @ [CHR 0x27]
                     @ ''message'' @ [CHR 0x27] @ '')''))"

text \<open>\<open>error?.message\<close>: undefined when there is nothing to read from.\<close>

fun optional_message :: "js_error \<Rightarrow> string option" where
  "optional_message (JsError c m) = m"
| "optional_message v = None"

text \<open>
  \<open>RpcException\<close> of \<open>@nestjs/microservices\<close> wraps either an object
  \<open>{ status, message }\<close> or a bare string.
\<close>

datatype rpc_error = RpcObject nat string | RpcString string

datatype exn = RpcException rpc_error | Thrown js_error

text \<open>The nullish coalescing operator \<open>a ?? b\<close>.\<close>

definition nullish :: "'a option \<Rightarrow> 'a \<Rightarrow> 'a" where
  "nullish a b = (case a of None \<Rightarrow> b | Some v \<Rightarrow> v)"

subsection \<open>Asynchronous, effectful computations\<close>

text \<open>
  Every \<open>async\<close> method runs against the outside world (database, clock, entropy), so
  it is a function from the world to a result and the world afterwards. A rejected
  promise or a thrown exception is the \<open>Inl\<close> result. The world is a type parameter:
  the handlers never look at it, they only thread it through their collaborators.
\<close>

type_synonym ('e, 'a, 'w) io = "'w \<Rightarrow> ('e + 'a) \<times> 'w"

definition resolve :: "'a \<Rightarrow> ('e, 'a, 'w) io" where
  "resolve a w = (Inr a, w)"

definition throw :: "'e \<Rightarrow> ('e, 'a, 'w) io" where
  "throw e w = (Inl e, w)"

definition await :: "('e, 'a, 'w) io \<Rightarrow> ('a \<Rightarrow> ('e, 'b, 'w) io) \<Rightarrow> ('e, 'b, 'w) io" where
  "await m k w = (case m w of (Inl e, w') \<Rightarrow> (Inl e, w') | (Inr a, w') \<Rightarrow> k a w')"

definition try_catch :: "('e, 'a, 'w) io \<Rightarrow> ('e \<Rightarrow> ('f, 'a, 'w) io) \<Rightarrow> ('f, 'a, 'w) io" where
  "try_catch m h w = (case m w of (Inl e, w') \<Rightarrow> h e w' | (Inr a, w') \<Rightarrow> (Inr a, w'))"

text \<open>
  Using a property read inside a \<open>catch\<close> block: when the read raises, that
  \<open>TypeError\<close> leaves the block in place of whatever the block was going to throw.
\<close>

definition reading :: "js_error + 'a \<Rightarrow> ('a \<Rightarrow> (exn, 'b, 'w) io) \<Rightarrow> (exn, 'b, 'w) io" where
  "reading r k = (case r of Inl raised \<Rightarrow> throw (Thrown raised) | Inr v \<Rightarrow> k v)"

section \<open>Domain model: the User entity\<close>

text \<open>
  \<open>src/auth/domain/model/user.entity.ts\<close>. The optional \<open>password\<close> is an option;
  the field \<open>id\<close> is called \<open>uid\<close> here.
\<close>

record user =
  uid :: string
  email :: string
  name :: string
  password :: "string option"
  isActive :: bool

text \<open>The constructor; the parameter \<open>isActive\<close> defaults to true when it is left out.\<close>

definition User :: "string \<Rightarrow> string \<Rightarrow> string \<Rightarrow> string option \<Rightarrow> bool option \<Rightarrow> user" where
  "User i e n p a = \<lparr>uid = i, email = e, name = n, password = p, isActive = nullish a True\<rparr>"

text \<open>
  \<open>String.prototype.trim\<close> removes the WhiteSpace and LineTerminator code points from
  both ends. Those below U+0100 are TAB, LF, VT, FF, CR, SPACE and NO-BREAK SPACE.
\<close>

definition isWhiteSpace :: "char \<Rightarrow> bool" where
  "isWhiteSpace c = (c \<in> {CHR 0x09, CHR 0x0A, CHR 0x0B, CHR 0x0C, CHR 0x0D, CHR 0x20, CHR 0xA0})"

definition trimStart :: "string \<Rightarrow> string" where
  "trimStart s = dropWhile isWhiteSpace s"

definition trimEnd :: "string \<Rightarrow> string" where
  "trimEnd s = rev (dropWhile isWhiteSpace (rev s))"

definition trim :: "string \<Rightarrow> string" where
  "trim s = trimEnd (trimStart s)"

text \<open>
  \<open>updateName\<close> is a \<open>void\<close> method that mutates \<open>this\<close>: it takes the object and
  returns what it threw, if anything, with the object afterwards. \<open>!newName\<close> holds of
  the empty string only.
\<close>

definition updateName :: "string \<Rightarrow> user \<Rightarrow> (js_error + unit) \<times> user" where
  "updateName newName this =
     (if newName = [] \<or> length (trim newName) = 0
      then (Inl (JsError None (Some ''User name cannot be empty.'')), this)
      else (Inr (), this\<lparr>name := trim newName\<rparr>))"

section \<open>Application layer: ports, requests, responses\<close>

text \<open>
  The handlers receive their collaborators by injection, as the three ports of
  \<open>src/auth/domain/ports\<close>. Each port method returns a promise, so it may reject with
  any exception and may change the world.
\<close>

record 'w user_repository_port =
  findById :: "string \<Rightarrow> (exn, user option, 'w) io"
  findByEmail :: "string \<Rightarrow> (exn, user option, 'w) io"
  save :: "user \<Rightarrow> (exn, user, 'w) io"
  delete :: "string \<Rightarrow> (exn, unit, 'w) io"

record 'w hasher_port =
  hash :: "string \<Rightarrow> (exn, string, 'w) io"
  compare :: "string \<Rightarrow> string \<Rightarrow> (exn, bool, 'w) io"

record 'w token_port =
  generateToken :: "js_object \<Rightarrow> (exn, string, 'w) io"
  verifyToken :: "string \<Rightarrow> (exn, js_object, 'w) io"

text \<open>\<open>RegisterUserDto\<close> holds name, email, password; \<open>LoginUserDto\<close> email, password.\<close>

datatype register_user_dto = RegisterUserDto string string string
datatype login_user_dto = LoginUserDto string string

datatype register_user_command = RegisterUserCommand register_user_dto
datatype login_user_command = LoginUserCommand login_user_dto
datatype verify_token_query = VerifyTokenQuery string

datatype auth_response_dto = AuthResponseDto js_object string
datatype verify_token_response_dto = VerifyTokenResponseDto js_object string

fun response_user :: "auth_response_dto \<Rightarrow> js_object" where
  "response_user (AuthResponseDto u t) = u"

fun response_token :: "auth_response_dto \<Rightarrow> string" where
  "response_token (AuthResponseDto u t) = t"

text \<open>
  \<open>const { password: _, ...userPayload } = user\<close>: the rest object holds the own
  enumerable properties of the entity other than \<open>password\<close>, in the order the
  constructor assigned them. Methods live on the prototype and are not copied.
\<close>

definition rest_without_password :: "user \<Rightarrow> js_object" where
  "rest_without_password u =
     [(''id'', JStr (uid u)), (''email'', JStr (email u)), (''name'', JStr (name u)),
      (''isActive'', JBool (isActive u))]"

text \<open>A synchronous call that reads the world and cannot throw, such as \<open>randomUUID()\<close>.\<close>

definition sync :: "('w \<Rightarrow> 'a \<times> 'w) \<Rightarrow> ('e, 'a, 'w) io" where
  "sync f w = (case f w of (a, w') \<Rightarrow> (Inr a, w'))"

subsection \<open>Command and query handlers\<close>

text \<open>
  \<open>LoginUserHandler.execute\<close>. \<open>!user || !user.password\<close> holds when no user came
  back, when the password is undefined and when it is the empty string. Calls to the
  logger and to \<open>console.error\<close> are left out, since they return nothing and do not
  throw; a property read among their arguments is kept where it comes first.
\<close>

definition LoginUserHandler_execute ::
  "'w user_repository_port \<Rightarrow> 'w hasher_port \<Rightarrow> 'w token_port \<Rightarrow> login_user_command
     \<Rightarrow> (exn, auth_response_dto, 'w) io" where
  "LoginUserHandler_execute userRepository hasher tokenService command =
     (case command of LoginUserCommand (LoginUserDto email' password') \<Rightarrow>
      try_catch
        (await (findByEmail userRepository email') (\<lambda>found.
           case found of
             None \<Rightarrow> throw (RpcException (RpcObject 400 ''User/Password not valid''))
           | Some user \<Rightarrow>
             (case password user of
                None \<Rightarrow> throw (RpcException (RpcObject 400 ''User/Password not valid''))
              | Some stored \<Rightarrow>
                if stored = [] then throw (RpcException (RpcObject 400 ''User/Password not valid''))
                else
                  await (compare hasher password' stored) (\<lambda>isPasswordValid.
                    if \<not> isPasswordValid
                    then throw (RpcException (RpcObject 400 ''User/Password not valid''))
                    else
                      (let userPayload = rest_without_password user in
                       await (generateToken tokenService
                                [(''id'', getProp userPayload ''id''),
                                 (''email'', getProp userPayload ''email''),
                                 (''name'', getProp userPayload ''name'')]) (\<lambda>token.
                         resolve (AuthResponseDto
                           [(''id'', getProp userPayload ''id''),
                            (''email'', getProp userPayload ''email''),
                            (''name'', getProp userPayload ''name''),
                            (''isActive'', getProp userPayload ''isActive''),
                            (''updateName'', JFun ''updateName'')] token)))))))
        (\<lambda>error.
           case error of
             RpcException r \<Rightarrow> throw error
           | Thrown e \<Rightarrow>
               reading (error_message e) (\<lambda>message.
                 throw (RpcException (RpcObject 500
                   (nullish message ''An unexpected error occurred during login.''))))))"

text \<open>\<open>RegisterUserHandler.execute\<close>; \<open>randomUUID\<close> comes from Node's \<open>crypto\<close>.\<close>

definition RegisterUserHandler_execute ::
  "'w user_repository_port \<Rightarrow> 'w hasher_port \<Rightarrow> 'w token_port \<Rightarrow> ('w \<Rightarrow> string \<times> 'w)
     \<Rightarrow> register_user_command \<Rightarrow> (exn, auth_response_dto, 'w) io" where
  "RegisterUserHandler_execute userRepository hasher tokenService randomUUID command =
     (case command of RegisterUserCommand (RegisterUserDto name' email' password') \<Rightarrow>
      try_catch
        (await (findByEmail userRepository email') (\<lambda>existingUser.
           case existingUser of
             Some existing \<Rightarrow> throw (RpcException (RpcObject 400 ''User already exists''))
           | None \<Rightarrow>
               await (hash hasher password') (\<lambda>hashedPassword.
               await (sync randomUUID) (\<lambda>id'.
                 (let userToSave = User id' email' name' (Some hashedPassword) None in
                  await (save userRepository userToSave) (\<lambda>savedUser.
                    (let userPayload = rest_without_password savedUser in
                     await (generateToken tokenService
                              [(''id'', getProp userPayload ''id''),
                               (''email'', getProp userPayload ''email''),
                               (''name'', getProp userPayload ''name'')]) (\<lambda>token.
                       resolve (AuthResponseDto
                         [(''id'', getProp userPayload ''id''),
                          (''email'', getProp userPayload ''email''),
                          (''name'', getProp userPayload ''name''),
                          (''isActive'', getProp userPayload ''isActive''),
                          (''updateName'', JFun ''updateName'')] token)))))))))
        (\<lambda>error.
           case error of
             RpcException r \<Rightarrow> throw error
           | Thrown e \<Rightarrow>
               reading (error_message e) (\<lambda>message.
                 throw (RpcException (RpcObject 500
                   (nullish message ''An unexpected error occurred during registration.''))))))"

text \<open>\<open>VerifyTokenHandler.execute\<close>: its \<open>catch\<close> does not look at what it caught.\<close>

definition VerifyTokenHandler_execute ::
  "'w token_port \<Rightarrow> verify_token_query \<Rightarrow> (exn, verify_token_response_dto, 'w) io" where
  "VerifyTokenHandler_execute tokenService query =
     (case query of VerifyTokenQuery token \<Rightarrow>
      try_catch
        (await (verifyToken tokenService token) (\<lambda>userPayload.
         await (generateToken tokenService userPayload) (\<lambda>newToken.
           resolve (VerifyTokenResponseDto userPayload newToken))))
        (\<lambda>error. throw (RpcException (RpcObject 401 ''Invalid token''))))"

section \<open>Infrastructure layer: adapters over third-party libraries\<close>

text \<open>
  The adapters of \<open>src/auth/infrastructure/adapters\<close> call Prisma, bcrypt and the
  NestJS \<open>JwtService\<close>. These libraries are not part of the repository; they are
  parameters here, and each call may throw a library error.
\<close>

record prisma_user =
  row_id :: string
  row_email :: string
  row_name :: string
  row_password :: "string option"
  row_isActive :: bool

datatype user_where = WhereId string | WhereEmail string

record 'w prisma_service =
  user_findUnique :: "user_where \<Rightarrow> (js_error, prisma_user option, 'w) io"
  user_create :: "prisma_user \<Rightarrow> (js_error, prisma_user, 'w) io"
  user_delete :: "user_where \<Rightarrow> (js_error, prisma_user, 'w) io"

record 'w bcrypt_lib =
  bcrypt_hash :: "string \<Rightarrow> nat \<Rightarrow> (js_error, string, 'w) io"
  bcrypt_compare :: "string \<Rightarrow> string \<Rightarrow> (js_error, bool, 'w) io"

text \<open>
  \<open>JwtService.sign(payload)\<close> uses the secret and the expiry the module was registered
  with; \<open>JwtService.verify(token, { secret })\<close> is given the secret by the adapter.
\<close>

record 'w jwt_service =
  jwt_sign :: "js_object \<Rightarrow> (js_error, string, 'w) io"
  jwt_verify :: "string \<Rightarrow> string \<Rightarrow> (js_error, js_object, 'w) io"

text \<open>\<open>src/config/envs.ts\<close>: the validated environment.\<close>

record envs =
  port :: int
  natsServers :: "string list"
  jwtSecret :: string
  jwtExpiresIn :: string

text \<open>An exception that no \<open>catch\<close> of the adapter intercepts reaches the caller as it is.\<close>

definition uncaught :: "(js_error, 'a, 'w) io \<Rightarrow> (exn, 'a, 'w) io" where
  "uncaught m = try_catch m (\<lambda>e. throw (Thrown e))"

subsection \<open>JwtTokenAdapter\<close>

definition JwtTokenAdapter_generateToken :: "'w jwt_service \<Rightarrow> js_object \<Rightarrow> (exn, string, 'w) io" where
  "JwtTokenAdapter_generateToken jwtService payload = uncaught (jwt_sign jwtService payload)"

definition JwtTokenAdapter_verifyToken ::
  "'w jwt_service \<Rightarrow> envs \<Rightarrow> string \<Rightarrow> (exn, js_object, 'w) io" where
  "JwtTokenAdapter_verifyToken jwtService env token =
     try_catch
       (await (jwt_verify jwtService token (jwtSecret env)) (\<lambda>decoded.
          resolve [(''id'', getProp decoded ''id''),
                   (''email'', getProp decoded ''email''),
                   (''name'', getProp decoded ''name'')]))
       (\<lambda>error.
          reading (error_message error) (\<lambda>message.
            throw (RpcException (RpcObject 401 (nullish message ''Invalid token.'')))))"

subsection \<open>PrismaUserRepository\<close>

text \<open>
  \<open>mapToDomain\<close> returns null for a null row and the entity otherwise; \<open>toDomain\<close> is
  its branch for a row that is there, which is also what \<open>save\<close> gets from \<open>create\<close>.
\<close>

definition toDomain :: "prisma_user \<Rightarrow> user" where
  "toDomain prismaUser =
     User (row_id prismaUser) (row_email prismaUser) (row_name prismaUser)
          (row_password prismaUser) (Some (row_isActive prismaUser))"

definition mapToDomain :: "prisma_user option \<Rightarrow> user option" where
  "mapToDomain prismaUser = (case prismaUser of None \<Rightarrow> None | Some r \<Rightarrow> Some (toDomain r))"

definition mapToPrismaCreateData :: "user \<Rightarrow> prisma_user" where
  "mapToPrismaCreateData u =
     \<lparr>row_id = uid u, row_email = email u, row_name = name u,
      row_password = Some (nullish (password u) []), row_isActive = isActive u\<rparr>"

definition PrismaUserRepository_findById ::
  "'w prisma_service \<Rightarrow> string \<Rightarrow> (exn, user option, 'w) io" where
  "PrismaUserRepository_findById prisma id' =
     try_catch
       (await (user_findUnique prisma (WhereId id')) (\<lambda>prismaUser.
          resolve (mapToDomain prismaUser)))
       (\<lambda>error. throw (RpcException (RpcObject 500 ''Database error finding user by ID.'')))"

definition PrismaUserRepository_findByEmail ::
  "'w prisma_service \<Rightarrow> string \<Rightarrow> (exn, user option, 'w) io" where
  "PrismaUserRepository_findByEmail prisma email' =
     try_catch
       (await (user_findUnique prisma (WhereEmail email')) (\<lambda>prismaUser.
          resolve (mapToDomain prismaUser)))
       (\<lambda>error. throw (RpcException (RpcObject 500 ''Database error finding user by email.'')))"

definition PrismaUserRepository_save :: "'w prisma_service \<Rightarrow> user \<Rightarrow> (exn, user, 'w) io" where
  "PrismaUserRepository_save prisma u =
     (let prismaData = mapToPrismaCreateData u in
      try_catch
        (await (user_create prisma prismaData) (\<lambda>savedPrismaUser.
           resolve (toDomain savedPrismaUser)))
        (\<lambda>error.
           reading (error_code error) (\<lambda>code.
           if code = Some ''P2002''
           then throw (RpcException (RpcObject 409
                  (''User with email '' @ email u @ '' already exists.'')))
           else throw (RpcException (RpcObject 500 ''Database error saving user.'')))))"

definition PrismaUserRepository_delete :: "'w prisma_service \<Rightarrow> string \<Rightarrow> (exn, unit, 'w) io" where
  "PrismaUserRepository_delete prisma id' =
     try_catch
       (await (user_delete prisma (WhereId id')) (\<lambda>deleted. resolve ()))
       (\<lambda>error.
          reading (error_code error) (\<lambda>code.
          if code = Some ''P2025''
          then throw (RpcException (RpcObject 404 (''User with ID '' @ id' @ '' not found.'')))
          else throw (RpcException (RpcObject 500 ''Database error deleting user.''))))"

subsection \<open>BcryptAdapter\<close>

definition saltRounds :: nat where
  "saltRounds = 10"

definition BcryptAdapter_hash :: "'w bcrypt_lib \<Rightarrow> string \<Rightarrow> (exn, string, 'w) io" where
  "BcryptAdapter_hash bcrypt plainText = uncaught (bcrypt_hash bcrypt plainText saltRounds)"

definition BcryptAdapter_compare :: "'w bcrypt_lib \<Rightarrow> string \<Rightarrow> string \<Rightarrow> (exn, bool, 'w) io" where
  "BcryptAdapter_compare bcrypt plainText hashed = uncaught (bcrypt_compare bcrypt plainText hashed)"

subsection \<open>AuthModule: the providers bound to the ports\<close>

definition PrismaUserRepository :: "'w prisma_service \<Rightarrow> 'w user_repository_port" where
  "PrismaUserRepository prisma =
     \<lparr>findById = PrismaUserRepository_findById prisma,
      findByEmail = PrismaUserRepository_findByEmail prisma,
      save = PrismaUserRepository_save prisma,
      delete = PrismaUserRepository_delete prisma\<rparr>"

definition BcryptAdapter :: "'w bcrypt_lib \<Rightarrow> 'w hasher_port" where
  "BcryptAdapter bcrypt =
     \<lparr>hash = BcryptAdapter_hash bcrypt, compare = BcryptAdapter_compare bcrypt\<rparr>"

definition JwtTokenAdapter :: "'w jwt_service \<Rightarrow> envs \<Rightarrow> 'w token_port" where
  "JwtTokenAdapter jwtService env =
     \<lparr>generateToken = JwtTokenAdapter_generateToken jwtService,
      verifyToken = JwtTokenAdapter_verifyToken jwtService env\<rparr>"

subsection \<open>AuthController\<close>

text \<open>
  The controller dispatches to the handler through the command or query bus and rethrows:
  an \<open>RpcException\<close> as it is, anything else wrapped in one that carries the message only.
\<close>

record 'w platform =
  prisma :: "'w prisma_service"
  bcrypt :: "'w bcrypt_lib"
  jwtService :: "'w jwt_service"
  randomUUID :: "'w \<Rightarrow> string \<times> 'w"
  envs :: envs

definition rethrow_rpc :: "string \<Rightarrow> exn \<Rightarrow> (exn, 'a, 'w) io" where
  "rethrow_rpc fallback error =
     (case error of
        RpcException r \<Rightarrow> throw error
      | Thrown e \<Rightarrow> throw (RpcException (RpcString (nullish (optional_message e) fallback))))"

definition AuthController_registerUser ::
  "'w platform \<Rightarrow> register_user_dto \<Rightarrow> (exn, auth_response_dto, 'w) io" where
  "AuthController_registerUser p registerUserDto =
     try_catch
       (RegisterUserHandler_execute (PrismaUserRepository (prisma p)) (BcryptAdapter (bcrypt p))
          (JwtTokenAdapter (jwtService p) (envs p)) (randomUUID p)
          (RegisterUserCommand registerUserDto))
       (rethrow_rpc ''Registration failed'')"

definition AuthController_loginUser ::
  "'w platform \<Rightarrow> login_user_dto \<Rightarrow> (exn, auth_response_dto, 'w) io" where
  "AuthController_loginUser p loginUserDto =
     try_catch
       (LoginUserHandler_execute (PrismaUserRepository (prisma p)) (BcryptAdapter (bcrypt p))
          (JwtTokenAdapter (jwtService p) (envs p)) (LoginUserCommand loginUserDto))
       (rethrow_rpc ''Login failed'')"

definition AuthController_verifyToken ::
  "'w platform \<Rightarrow> string \<Rightarrow> (exn, verify_token_response_dto, 'w) io" where
  "AuthController_verifyToken p token =
     try_catch
       (VerifyTokenHandler_execute (JwtTokenAdapter (jwtService p) (envs p)) (VerifyTokenQuery token))
       (rethrow_rpc ''Token verification failed'')"

subsection \<open>The global exception filter\<close>


section \<open>An in-memory platform\<close>

text \<open>
  A concrete world to run the service on: a user table, a clock in seconds, a supply of
  UUIDs, the tokens signed so far, and a trace of the library calls made. The token
  library behaves as a JWT library does in the respects the handlers can observe: the
  token string is a function of the payload and of the issued-at and expiry seconds, a
  token verifies when this service signed it, the secret matches and it has not expired,
  and the decoded object carries \<open>iat\<close> and \<open>exp\<close> next to the payload. The hasher
  is a stand-in without cryptography: its hash is the plain text behind a prefix.
\<close>

datatype lib_call =
  FindUnique user_where | Create prisma_user | Delete user_where
  | Hash string | Compare string string | Sign js_object | Verify string | RandomUUID

record mem_world =
  users :: "prisma_user list"
  clock :: int
  uuids :: "string list"
  issued :: "(string \<times> js_object) list"
  calls :: "lib_call list"

definition called :: "lib_call \<Rightarrow> mem_world \<Rightarrow> mem_world" where
  "called c w = w\<lparr>calls := calls w @ [c]\<rparr>"

fun matches :: "user_where \<Rightarrow> prisma_user \<Rightarrow> bool" where
  "matches (WhereId i) r = (row_id r = i)"
| "matches (WhereEmail e) r = (row_email r = e)"

definition mem_prisma :: "mem_world prisma_service" where
  "mem_prisma =
     \<lparr>user_findUnique = (\<lambda>wh w. (Inr (find (matches wh) (users w)), called (FindUnique wh) w)),
      user_create = (\<lambda>d w.
        if list_ex (\<lambda>r. row_email r = row_email d \<or> row_id r = row_id d) (users w)
        then (Inl (JsError (Some ''P2002'') (Some ''Unique constraint failed'')),
              called (Create d) w)
        else (Inr d, called (Create d) (w\<lparr>users := users w @ [d]\<rparr>))),
      user_delete = (\<lambda>wh w.
        case find (matches wh) (users w) of
          None \<Rightarrow> (Inl (JsError (Some ''P2025'') (Some ''Record to delete does not exist'')),
                    called (Delete wh) w)
        | Some r \<Rightarrow> (Inr r, called (Delete wh)
                             (w\<lparr>users := filter (\<lambda>x. \<not> matches wh x) (users w)\<rparr>)))\<rparr>"

definition mem_bcrypt :: "mem_world bcrypt_lib" where
  "mem_bcrypt =
     \<lparr>bcrypt_hash = (\<lambda>plain rounds w. (Inr (''$2b$'' @ plain), called (Hash plain) w)),
      bcrypt_compare = (\<lambda>plain hashed w.
        (Inr (hashed = ''$2b$'' @ plain), called (Compare plain hashed) w))\<rparr>"

definition decimal :: "int \<Rightarrow> string" where
  "decimal n =
     map (\<lambda>k. ''0123456789'' ! nat ((n div 10 ^ k) mod 10)) [9, 8, 7, 6, 5, 4, 3, 2, 1, 0]"

fun render :: "js_value \<Rightarrow> string" where
  "render (JStr s) = s"
| "render (JNum n) = decimal n"
| "render v = []"

definition mem_encode :: "js_object \<Rightarrow> string" where
  "mem_encode claims = concat (map (\<lambda>kv. ''.'' @ render (snd kv)) claims)"

fun expired :: "js_value \<Rightarrow> int \<Rightarrow> bool" where
  "expired (JNum e) now = (e \<le> now)"
| "expired v now = False"

definition mem_jwt :: "string \<Rightarrow> mem_world jwt_service" where
  "mem_jwt secret =
     \<lparr>jwt_sign = (\<lambda>payload w.
        (let claims = payload @ [(''iat'', JNum (clock w)),
                                 (''exp'', JNum (clock w + 7200))];
             tok = mem_encode claims
         in (Inr tok, called (Sign payload) (w\<lparr>issued := (tok, claims) # issued w\<rparr>)))),
      jwt_verify = (\<lambda>tok key w.
        if key \<noteq> secret
        then (Inl (JsError None (Some ''invalid signature'')), called (Verify tok) w)
        else
          (case map_of (issued w) tok of
             None \<Rightarrow> (Inl (JsError None (Some ''jwt malformed'')), called (Verify tok) w)
           | Some claims \<Rightarrow>
               if expired (getProp claims ''exp'') (clock w)
               then (Inl (JsError None (Some ''jwt expired'')), called (Verify tok) w)
               else (Inr claims, called (Verify tok) w)))\<rparr>"

definition mem_randomUUID :: "mem_world \<Rightarrow> string \<times> mem_world" where
  "mem_randomUUID w =
     (case uuids w of
        [] \<Rightarrow> (''00000000-0000-4000-8000-000000000000'', called RandomUUID w)
      | u # us \<Rightarrow> (u, called RandomUUID (w\<lparr>uuids := us\<rparr>)))"

definition mem_envs :: envs where
  "mem_envs = \<lparr>port = 3004, natsServers = [''nats://localhost:4222''],
               jwtSecret = ''s3cret'', jwtExpiresIn = ''2h''\<rparr>"

definition mem_platform :: "mem_world platform" where
  "mem_platform =
     \<lparr>prisma = mem_prisma, bcrypt = mem_bcrypt, jwtService = mem_jwt ''s3cret'',
      randomUUID = mem_randomUUID, envs = mem_envs\<rparr>"

text \<open>
  A world with two registered users, one of them deactivated, used to run the service on
  concrete requests.
\<close>

definition ada_row :: prisma_user where
  "ada_row = \<lparr>row_id = ''u-ada'', row_email = ''ada@x.io'', row_name = ''Ada'',
              row_password = Some ''$2b$Str0ng!Pass'', row_isActive = True\<rparr>"

definition bob_row :: prisma_user where
  "bob_row = \<lparr>row_id = ''u-bob'', row_email = ''bob@x.io'', row_name = ''Bob'',
              row_password = Some ''$2b$C0rrect!Horse'', row_isActive = False\<rparr>"

definition world0 :: mem_world where
  "world0 = \<lparr>users = [ada_row, bob_row], clock = 1700000000, uuids = [''u-new''],
             issued = [], calls = []\<rparr>"

text \<open>
  Ada's identity payload, the token the in-memory library signs for it at the clock of
  \<open>world0\<close>, the world after that token was minted, the same world two hours later,
  and the token minted when Bob logs in at the clock of \<open>world0\<close>.
\<close>

definition ada_payload :: js_object where
  "ada_payload = [(''id'', JStr ''u-ada''), (''email'', JStr ''ada@x.io''), (''name'', JStr ''Ada'')]"

definition ada_token :: string where
  "ada_token = ''.u-ada.ada@x.io.Ada.1700000000.1700007200''"

definition world1 :: mem_world where
  "world1 = snd (JwtTokenAdapter_generateToken (mem_jwt ''s3cret'') ada_payload world0)"

definition world_late :: mem_world where
  "world_late = world1\<lparr>clock := 1700007200\<rparr>"



text \<open>A token library that verifies as before but cannot sign (its key is missing).\<close>

definition mem_jwt_unsigned :: "mem_world jwt_service" where
  "mem_jwt_unsigned =
     (mem_jwt ''s3cret'')\<lparr>jwt_sign := (\<lambda>payload w.
        (Inl (JsError None (Some ''secretOrPrivateKey must have a value'')),
         called (Sign payload) w))\<rparr>"


section \<open>Observations on results\<close>

text \<open>The status of the exception a workflow ended with, if it carries one.\<close>

fun failure_status :: "exn + 'a \<Rightarrow> nat option" where
  "failure_status (Inl (RpcException (RpcObject status message))) = Some status"
| "failure_status r = None"

text \<open>The property names of the user object of a successful response.\<close>

fun response_keys :: "exn + auth_response_dto \<Rightarrow> string list" where
  "response_keys (Inr r) = ownKeys (response_user r)"
| "response_keys (Inl e) = []"

text \<open>
  \<open>JSON.stringify\<close>, which the transport applies to a response, leaves out every
  property whose value is a function or undefined.
\<close>

fun serialisable :: "js_value \<Rightarrow> bool" where
  "serialisable (JFun f) = False"
| "serialisable JUndefined = False"
| "serialisable v = True"

definition toJSON :: "js_object \<Rightarrow> js_object" where
  "toJSON obj = filter (\<lambda>kv. serialisable (snd kv)) obj"

section \<open>Unfolding rules\<close>

lemmas io_defs =
  resolve_def throw_def await_def try_catch_def sync_def uncaught_def reading_def


lemmas mem_defs =
  mem_platform_def mem_prisma_def mem_bcrypt_def mem_jwt_def mem_randomUUID_def mem_envs_def
  mem_encode_def decimal_def called_def world0_def ada_row_def bob_row_def

section \<open>Properties of the User entity\<close>

lemma trim_Nil: "trim [] = []"
  by (simp add: trim_def trimEnd_def trimStart_def)

lemma trim_empty_iff: "trim s = [] \<longleftrightarrow> (\<forall>c \<in> set s. isWhiteSpace c)"
proof
  assume "trim s = []"
  then have rest: "\<forall>c \<in> set (dropWhile isWhiteSpace s). isWhiteSpace c"
    by (simp add: trim_def trimEnd_def trimStart_def)
  have "dropWhile isWhiteSpace s = []"
  proof (rule ccontr)
    assume nonempty: "dropWhile isWhiteSpace s \<noteq> []"
    then have "\<not> isWhiteSpace (hd (dropWhile isWhiteSpace s))"
      by (rule hd_dropWhile)
    moreover have "hd (dropWhile isWhiteSpace s) \<in> set (dropWhile isWhiteSpace s)"
      using nonempty by simp
    ultimately show False
      using rest by blast
  qed
  then show "\<forall>c \<in> set s. isWhiteSpace c"
    by simp
next
  assume "\<forall>c \<in> set s. isWhiteSpace c"
  then have dropped: "dropWhile isWhiteSpace s = []"
    by simp
  show "trim s = []"
    by (simp add: trim_def trimEnd_def trimStart_def dropped)
qed

text \<open>
  C10. \<open>updateName\<close> is atomic with respect to the non-empty-name rule: on an empty or
  whitespace-only argument it throws and the object is exactly as before; on any other
  argument the name becomes the trimmed argument, which is not empty, and no other field
  changes.
\<close>

theorem updateName_atomic:
  "((newName = [] \<or> (\<forall>c \<in> set newName. isWhiteSpace c)) \<longrightarrow>
      updateName newName u = (Inl (JsError None (Some ''User name cannot be empty.'')), u))
   \<and> (\<not> (newName = [] \<or> (\<forall>c \<in> set newName. isWhiteSpace c)) \<longrightarrow>
      fst (updateName newName u) = Inr ()
      \<and> name (snd (updateName newName u)) = trim newName
      \<and> trim newName \<noteq> []
      \<and> uid (snd (updateName newName u)) = uid u
      \<and> email (snd (updateName newName u)) = email u
      \<and> password (snd (updateName newName u)) = password u
      \<and> isActive (snd (updateName newName u)) = isActive u
      \<and> snd (updateName newName u) = u\<lparr>name := trim newName\<rparr>)"
proof -
  have blank: "(newName = [] \<or> (\<forall>c \<in> set newName. isWhiteSpace c)) \<longleftrightarrow> trim newName = []"
    using trim_empty_iff [of newName] by auto
  show ?thesis
    unfolding blank using trim_Nil by (auto simp add: updateName_def)
qed

theorem updateName_atomic_witness:
  "updateName [CHR 0x20, CHR 0x09, CHR 0xA0] (toDomain ada_row)
     = (Inl (JsError None (Some ''User name cannot be empty.'')), toDomain ada_row)
   \<and> snd (updateName ''  Ada Lovelace '' (toDomain ada_row))
     = (toDomain ada_row)\<lparr>name := ''Ada Lovelace''\<rparr>"
proof -
  have blank: "\<forall>c \<in> set [CHR 0x20, CHR 0x09, CHR 0xA0]. isWhiteSpace c"
    by (simp add: isWhiteSpace_def)
  have filled: "\<not> (''  Ada Lovelace '' = [] \<or> (\<forall>c \<in> set ''  Ada Lovelace ''. isWhiteSpace c))"
    by (simp add: isWhiteSpace_def)
  have trimmed: "trim ''  Ada Lovelace '' = ''Ada Lovelace''"
    by (simp add: trim_def trimStart_def trimEnd_def isWhiteSpace_def)
  show ?thesis
    using updateName_atomic [of "[CHR 0x20, CHR 0x09, CHR 0xA0]" "toDomain ada_row"]
          updateName_atomic [of "''  Ada Lovelace ''" "toDomain ada_row"]
          blank filled trimmed
    by simp
qed

section \<open>Login\<close>

text \<open>
  Minting the token is a step of the login like the others: the handler's \<open>catch\<close> turns
  a failure of \<open>generateToken\<close> into status 500. On the in-memory platform with a token
  library that cannot sign, Ada is found, her hash is there and \<open>compare\<close> returns true,
  and the login fails.
\<close>

theorem login_mint_failure_counterexample:
  "fst (findByEmail (PrismaUserRepository mem_prisma) ''ada@x.io'' world0)
     = Inr (Some (toDomain ada_row))
   \<and> password (toDomain ada_row) = Some ''$2b$Str0ng!Pass''
   \<and> fst (compare (BcryptAdapter mem_bcrypt) ''Str0ng!Pass'' ''$2b$Str0ng!Pass''
          (snd (findByEmail (PrismaUserRepository mem_prisma) ''ada@x.io'' world0)))
     = Inr True
   \<and> fst (LoginUserHandler_execute (PrismaUserRepository mem_prisma) (BcryptAdapter mem_bcrypt)
          (JwtTokenAdapter mem_jwt_unsigned mem_envs)
          (LoginUserCommand (LoginUserDto ''ada@x.io'' ''Str0ng!Pass'')) world0)
     = Inl (RpcException (RpcObject 500 ''secretOrPrivateKey must have a value''))"
  by code_simp

text \<open>
  C1, as the handler implements it. A login succeeds exactly when the lookup by email
  returns a user, that user has a non-empty stored hash, \<open>compare\<close> returns true for the
  presented password, and minting the token for that user returns a token. An absent
  user, an absent or empty hash and a mismatch all fail with the same exception: status
  400, message "User/Password not valid".
\<close>

theorem login_succeeds_iff:
  "((\<exists>r. fst (LoginUserHandler_execute userRepository hasher tokenService
                (LoginUserCommand (LoginUserDto em pw)) w) = Inr r)
      \<longleftrightarrow> (\<exists>u h w1 w2 t. findByEmail userRepository em w = (Inr (Some u), w1)
              \<and> password u = Some h \<and> h \<noteq> []
              \<and> compare hasher pw h w1 = (Inr True, w2)
              \<and> fst (generateToken tokenService
                       [(''id'', JStr (uid u)), (''email'', JStr (email u)),
                        (''name'', JStr (name u))] w2) = Inr t))
     \<and> (fst (findByEmail userRepository em w) = Inr None \<longrightarrow>
          fst (LoginUserHandler_execute userRepository hasher tokenService
                (LoginUserCommand (LoginUserDto em pw)) w)
          = Inl (RpcException (RpcObject 400 ''User/Password not valid'')))
     \<and> (\<forall>u. fst (findByEmail userRepository em w) = Inr (Some u)
              \<and> (password u = None \<or> password u = Some []) \<longrightarrow>
          fst (LoginUserHandler_execute userRepository hasher tokenService
                (LoginUserCommand (LoginUserDto em pw)) w)
          = Inl (RpcException (RpcObject 400 ''User/Password not valid'')))
     \<and> (\<forall>u h w1. findByEmail userRepository em w = (Inr (Some u), w1)
              \<and> password u = Some h \<and> h \<noteq> []
              \<and> fst (compare hasher pw h w1) = Inr False \<longrightarrow>
          fst (LoginUserHandler_execute userRepository hasher tokenService
                (LoginUserCommand (LoginUserDto em pw)) w)
          = Inl (RpcException (RpcObject 400 ''User/Password not valid'')))"
proof (intro conjI)
  show "(\<exists>r. fst (LoginUserHandler_execute userRepository hasher tokenService
                (LoginUserCommand (LoginUserDto em pw)) w) = Inr r)
      \<longleftrightarrow> (\<exists>u h w1 w2 t. findByEmail userRepository em w = (Inr (Some u), w1)
              \<and> password u = Some h \<and> h \<noteq> []
              \<and> compare hasher pw h w1 = (Inr True, w2)
              \<and> fst (generateToken tokenService
                       [(''id'', JStr (uid u)), (''email'', JStr (email u)),
                        (''name'', JStr (name u))] w2) = Inr t)"
  proof
    assume "\<exists>r. fst (LoginUserHandler_execute userRepository hasher tokenService
                (LoginUserCommand (LoginUserDto em pw)) w) = Inr r"
    then show "\<exists>u h w1 w2 t. findByEmail userRepository em w = (Inr (Some u), w1)
              \<and> password u = Some h \<and> h \<noteq> []
              \<and> compare hasher pw h w1 = (Inr True, w2)
              \<and> fst (generateToken tokenService
                       [(''id'', JStr (uid u)), (''email'', JStr (email u)),
                        (''name'', JStr (name u))] w2) = Inr t"
      by (auto simp add: LoginUserHandler_execute_def io_defs Let_def
                         rest_without_password_def getProp_def
               split: prod.splits sum.splits option.splits if_splits exn.splits)
  next
    assume "\<exists>u h w1 w2 t. findByEmail userRepository em w = (Inr (Some u), w1)
              \<and> password u = Some h \<and> h \<noteq> []
              \<and> compare hasher pw h w1 = (Inr True, w2)
              \<and> fst (generateToken tokenService
                       [(''id'', JStr (uid u)), (''email'', JStr (email u)),
                        (''name'', JStr (name u))] w2) = Inr t"
    then obtain u h w1 w2 t where found: "findByEmail userRepository em w = (Inr (Some u), w1)"
      and stored: "password u = Some h" "h \<noteq> []"
      and valid: "compare hasher pw h w1 = (Inr True, w2)"
      and minted: "fst (generateToken tokenService
                       [(''id'', JStr (uid u)), (''email'', JStr (email u)),
                        (''name'', JStr (name u))] w2) = Inr t"
      by blast
    obtain w3 where tok: "generateToken tokenService
        [(''id'', JStr (uid u)), (''email'', JStr (email u)), (''name'', JStr (name u))] w2
        = (Inr t, w3)"
      using minted by (metis prod.collapse)
    show "\<exists>r. fst (LoginUserHandler_execute userRepository hasher tokenService
                (LoginUserCommand (LoginUserDto em pw)) w) = Inr r"
      using found stored valid tok
      by (simp add: LoginUserHandler_execute_def io_defs rest_without_password_def getProp_def)
  qed
qed (auto simp add: LoginUserHandler_execute_def io_defs Let_def
          split: prod.splits sum.splits option.splits if_splits exn.splits)

theorem login_succeeds_iff_witness:
  "(\<exists>r. fst (LoginUserHandler_execute (PrismaUserRepository mem_prisma) (BcryptAdapter mem_bcrypt)
            (JwtTokenAdapter (mem_jwt ''s3cret'') mem_envs)
            (LoginUserCommand (LoginUserDto ''ada@x.io'' ''Str0ng!Pass'')) world0) = Inr r)
   \<and> fst (LoginUserHandler_execute (PrismaUserRepository mem_prisma) (BcryptAdapter mem_bcrypt)
            (JwtTokenAdapter (mem_jwt ''s3cret'') mem_envs)
            (LoginUserCommand (LoginUserDto ''eve@x.io'' ''Str0ng!Pass'')) world0)
       = Inl (RpcException (RpcObject 400 ''User/Password not valid''))
   \<and> fst (LoginUserHandler_execute (PrismaUserRepository mem_prisma) (BcryptAdapter mem_bcrypt)
            (JwtTokenAdapter (mem_jwt ''s3cret'') mem_envs)
            (LoginUserCommand (LoginUserDto ''ada@x.io'' ''Wr0ng!Pass'')) world0)
       = Inl (RpcException (RpcObject 400 ''User/Password not valid''))"
proof -
  let ?repo = "PrismaUserRepository mem_prisma"
  let ?hasher = "BcryptAdapter mem_bcrypt"
  let ?tokens = "JwtTokenAdapter (mem_jwt ''s3cret'') mem_envs"
  let ?w1 = "snd (findByEmail ?repo ''ada@x.io'' world0)"
  let ?w2 = "snd (compare ?hasher ''Str0ng!Pass'' ''$2b$Str0ng!Pass'' ?w1)"
  have found: "findByEmail ?repo ''ada@x.io'' world0 = (Inr (Some (toDomain ada_row)), ?w1)"
    by code_simp
  have absent: "fst (findByEmail ?repo ''eve@x.io'' world0) = Inr None"
    by code_simp
  have stored: "password (toDomain ada_row) = Some ''$2b$Str0ng!Pass''" "''$2b$Str0ng!Pass'' \<noteq> []"
    by code_simp+
  have good: "compare ?hasher ''Str0ng!Pass'' ''$2b$Str0ng!Pass'' ?w1 = (Inr True, ?w2)"
    by code_simp
  have bad: "fst (compare ?hasher ''Wr0ng!Pass'' ''$2b$Str0ng!Pass'' ?w1) = Inr False"
    by code_simp
  have minted: "fst (generateToken ?tokens
      [(''id'', JStr (uid (toDomain ada_row))), (''email'', JStr (email (toDomain ada_row))),
       (''name'', JStr (name (toDomain ada_row)))] ?w2) = Inr ada_token"
    by code_simp
  have succeeds: "\<exists>r. fst (LoginUserHandler_execute ?repo ?hasher ?tokens
            (LoginUserCommand (LoginUserDto ''ada@x.io'' ''Str0ng!Pass'')) world0) = Inr r"
    using login_succeeds_iff [where userRepository = ?repo and hasher = ?hasher
            and tokenService = ?tokens and w = world0
            and em = "''ada@x.io''" and pw = "''Str0ng!Pass''"]
          found stored good minted
    by blast
  have unknown: "fst (LoginUserHandler_execute ?repo ?hasher ?tokens
            (LoginUserCommand (LoginUserDto ''eve@x.io'' ''Str0ng!Pass'')) world0)
       = Inl (RpcException (RpcObject 400 ''User/Password not valid''))"
    using login_succeeds_iff [where userRepository = ?repo and hasher = ?hasher
            and tokenService = ?tokens and w = world0
            and em = "''eve@x.io''" and pw = "''Str0ng!Pass''"]
          absent
    by blast
  have mismatch: "fst (LoginUserHandler_execute ?repo ?hasher ?tokens
            (LoginUserCommand (LoginUserDto ''ada@x.io'' ''Wr0ng!Pass'')) world0)
       = Inl (RpcException (RpcObject 400 ''User/Password not valid''))"
    using login_succeeds_iff [where userRepository = ?repo and hasher = ?hasher
            and tokenService = ?tokens and w = world0
            and em = "''ada@x.io''" and pw = "''Wr0ng!Pass''"]
          found stored bad
    by blast
  show ?thesis
    using succeeds unknown mismatch by blast
qed

section \<open>Login of a deactivated user\<close>



section \<open>Registration with an email that is already registered\<close>

text \<open>
  The pre-check of the handler answers an existing email with status 400. Status 409 is
  what \<open>PrismaUserRepository.save\<close> raises when the store itself rejects a duplicate; the
  pre-check does not use it. On the in-memory platform, registering Bob's email again:
\<close>

theorem register_existing_email_counterexample:
  "failure_status (fst (AuthController_registerUser mem_platform
      (RegisterUserDto ''Bob'' ''bob@x.io'' ''Str0ng!Pass'') world0)) = Some 400
   \<and> failure_status (fst (AuthController_registerUser mem_platform
      (RegisterUserDto ''Bob'' ''bob@x.io'' ''Str0ng!Pass'') world0)) \<noteq> Some 409"
  by code_simp

text \<open>
  C2, as the handler implements it. When the lookup by email returns a user, registration
  fails with status 400 and the message "User already exists", and the world afterwards is
  the world the lookup left: whatever the hasher, the UUID source, \<open>save\<close> and the token
  service would do, none of them is called.
\<close>

theorem register_existing_email:
  assumes "findByEmail userRepository em w = (Inr (Some existing), w1)"
  shows "RegisterUserHandler_execute userRepository hasher tokenService uuid
           (RegisterUserCommand (RegisterUserDto nm em pw)) w
         = (Inl (RpcException (RpcObject 400 ''User already exists'')), w1)"
  using assms by (simp add: RegisterUserHandler_execute_def io_defs)

theorem register_existing_email_witness:
  "RegisterUserHandler_execute (PrismaUserRepository mem_prisma) (BcryptAdapter mem_bcrypt)
      (JwtTokenAdapter (mem_jwt ''s3cret'') mem_envs) mem_randomUUID
      (RegisterUserCommand (RegisterUserDto ''Bob'' ''bob@x.io'' ''Str0ng!Pass'')) world0
   = (Inl (RpcException (RpcObject 400 ''User already exists'')),
      world0\<lparr>calls := [FindUnique (WhereEmail ''bob@x.io'')]\<rparr>)"
proof -
  have found: "findByEmail (PrismaUserRepository mem_prisma) ''bob@x.io'' world0
      = (Inr (Some (toDomain bob_row)), world0\<lparr>calls := [FindUnique (WhereEmail ''bob@x.io'')]\<rparr>)"
    by code_simp
  show ?thesis
    using register_existing_email [OF found] by simp
qed

text \<open>
  Status 409 belongs to the other path: when the lookup finds nothing and the store then
  rejects the insert as a duplicate (Prisma error P2002), \<open>save\<close> raises 409 and the
  handler passes it on unchanged.
\<close>

lemma save_conflict:
  assumes "user_create pr (mapToPrismaCreateData u) w = (Inl err, w1)"
    and "error_code err = Inr (Some ''P2002'')"
  shows "PrismaUserRepository_save pr u w
         = (Inl (RpcException (RpcObject 409
                   (''User with email '' @ email u @ '' already exists.''))), w1)"
  using assms by (simp add: PrismaUserRepository_save_def io_defs)

lemma register_race_conflict:
  assumes absent: "findByEmail userRepository em w = (Inr None, w1)"
    and hashed: "hash hasher pw w1 = (Inr hashedPassword, w2)"
    and fresh: "uuid w2 = (i, w3)"
    and rejected: "save userRepository (User i em nm (Some hashedPassword) None) w3
                   = (Inl (RpcException (RpcObject 409 msg)), w4)"
  shows "RegisterUserHandler_execute userRepository hasher tokenService uuid
           (RegisterUserCommand (RegisterUserDto nm em pw)) w
         = (Inl (RpcException (RpcObject 409 msg)), w4)"
  using assms by (simp add: RegisterUserHandler_execute_def io_defs)

section \<open>The user object of a response\<close>

text \<open>
  The object the handlers build has five properties: besides the four data fields it
  carries \<open>updateName\<close>, a reference to the entity's method, which the type
  \<open>Omit<User, 'password'>\<close> of the response requires. On the in-memory platform, for a
  login and for a registration:
\<close>

theorem response_user_counterexample:
  "response_keys (fst (AuthController_loginUser mem_platform
      (LoginUserDto ''ada@x.io'' ''Str0ng!Pass'') world0))
     = [''id'', ''email'', ''name'', ''isActive'', ''updateName'']
   \<and> response_keys (fst (AuthController_registerUser mem_platform
      (RegisterUserDto ''Cy'' ''cy@x.io'' ''Str0ng!Pass'') world0))
     = [''id'', ''email'', ''name'', ''isActive'', ''updateName'']"
  by code_simp

text \<open>
  C4, as the handlers implement it. The user object of every successful login is built
  from the id, email, name and isActive of the user the lookup returned, and that of every
  successful registration from those of the user \<open>save\<close> returned; next to these four it
  holds the method reference \<open>updateName\<close> and nothing else. It has no \<open>password\<close>
  property and no value computed from the password, and its serialised form has exactly
  the properties id, email, name, isActive.
\<close>

theorem response_user_fields:
  "(fst (LoginUserHandler_execute userRepository hasher tokenService
          (LoginUserCommand (LoginUserDto em pw)) w) = Inr r \<longrightarrow>
      (\<exists>u. fst (findByEmail userRepository em w) = Inr (Some u)
         \<and> response_user r =
             [(''id'', JStr (uid u)), (''email'', JStr (email u)), (''name'', JStr (name u)),
              (''isActive'', JBool (isActive u)), (''updateName'', JFun ''updateName'')])
      \<and> ownKeys (response_user r) = [''id'', ''email'', ''name'', ''isActive'', ''updateName'']
      \<and> ownKeys (toJSON (response_user r)) = [''id'', ''email'', ''name'', ''isActive'']
      \<and> ''password'' \<notin> set (ownKeys (response_user r)))
   \<and> (fst (RegisterUserHandler_execute userRepository hasher tokenService uuid
          (RegisterUserCommand (RegisterUserDto nm em pw)) w) = Inr r' \<longrightarrow>
      (\<exists>hashed id' w1 saved.
         fst (save userRepository (User id' em nm (Some hashed) None) w1) = Inr saved
         \<and> response_user r' =
             [(''id'', JStr (uid saved)), (''email'', JStr (email saved)),
              (''name'', JStr (name saved)), (''isActive'', JBool (isActive saved)),
              (''updateName'', JFun ''updateName'')])
      \<and> ownKeys (response_user r') = [''id'', ''email'', ''name'', ''isActive'', ''updateName'']
      \<and> ownKeys (toJSON (response_user r')) = [''id'', ''email'', ''name'', ''isActive'']
      \<and> ''password'' \<notin> set (ownKeys (response_user r')))"
proof (intro conjI impI)
  assume "fst (LoginUserHandler_execute userRepository hasher tokenService
          (LoginUserCommand (LoginUserDto em pw)) w) = Inr r"
  then show found: "\<exists>u. fst (findByEmail userRepository em w) = Inr (Some u)
         \<and> response_user r =
             [(''id'', JStr (uid u)), (''email'', JStr (email u)), (''name'', JStr (name u)),
              (''isActive'', JBool (isActive u)), (''updateName'', JFun ''updateName'')]"
    by (auto simp add: LoginUserHandler_execute_def io_defs Let_def rest_without_password_def
                       getProp_def
             split: prod.splits sum.splits option.splits if_splits exn.splits)
  then show "ownKeys (response_user r) = [''id'', ''email'', ''name'', ''isActive'', ''updateName'']"
    by (auto simp add: ownKeys_def)
  from found show "ownKeys (toJSON (response_user r)) = [''id'', ''email'', ''name'', ''isActive'']"
    by (auto simp add: ownKeys_def toJSON_def)
  from found show "''password'' \<notin> set (ownKeys (response_user r))"
    by (auto simp add: ownKeys_def)
next
  assume "fst (RegisterUserHandler_execute userRepository hasher tokenService uuid
          (RegisterUserCommand (RegisterUserDto nm em pw)) w) = Inr r'"
  then show saved: "\<exists>hashed id' w1 saved.
         fst (save userRepository (User id' em nm (Some hashed) None) w1) = Inr saved
         \<and> response_user r' =
             [(''id'', JStr (uid saved)), (''email'', JStr (email saved)),
              (''name'', JStr (name saved)), (''isActive'', JBool (isActive saved)),
              (''updateName'', JFun ''updateName'')]"
    by (auto simp add: RegisterUserHandler_execute_def io_defs Let_def rest_without_password_def
                       getProp_def
             split: prod.splits sum.splits option.splits if_splits exn.splits)
       (metis fst_conv)
  then show "ownKeys (response_user r') = [''id'', ''email'', ''name'', ''isActive'', ''updateName'']"
    by (auto simp add: ownKeys_def)
  from saved show "ownKeys (toJSON (response_user r')) = [''id'', ''email'', ''name'', ''isActive'']"
    by (auto simp add: ownKeys_def toJSON_def)
  from saved show "''password'' \<notin> set (ownKeys (response_user r'))"
    by (auto simp add: ownKeys_def)
qed

theorem response_user_fields_witness:
  "fst (LoginUserHandler_execute (PrismaUserRepository mem_prisma) (BcryptAdapter mem_bcrypt)
          (JwtTokenAdapter (mem_jwt ''s3cret'') mem_envs)
          (LoginUserCommand (LoginUserDto ''ada@x.io'' ''Str0ng!Pass'')) world0)
     = Inr (AuthResponseDto
             [(''id'', JStr ''u-ada''), (''email'', JStr ''ada@x.io''), (''name'', JStr ''Ada''),
              (''isActive'', JBool True), (''updateName'', JFun ''updateName'')] ada_token)
   \<and> fst (RegisterUserHandler_execute (PrismaUserRepository mem_prisma) (BcryptAdapter mem_bcrypt)
          (JwtTokenAdapter (mem_jwt ''s3cret'') mem_envs) mem_randomUUID
          (RegisterUserCommand (RegisterUserDto ''Cy'' ''cy@x.io'' ''Str0ng!Pass'')) world0)
     = Inr (AuthResponseDto
             [(''id'', JStr ''u-new''), (''email'', JStr ''cy@x.io''), (''name'', JStr ''Cy''),
              (''isActive'', JBool True), (''updateName'', JFun ''updateName'')]
             ''.u-new.cy@x.io.Cy.1700000000.1700007200'')
   \<and> ''password'' \<notin> set (ownKeys (response_user (AuthResponseDto
             [(''id'', JStr ''u-ada''), (''email'', JStr ''ada@x.io''), (''name'', JStr ''Ada''),
              (''isActive'', JBool True), (''updateName'', JFun ''updateName'')] ada_token)))
   \<and> ''password'' \<notin> set (ownKeys (response_user (AuthResponseDto
             [(''id'', JStr ''u-new''), (''email'', JStr ''cy@x.io''), (''name'', JStr ''Cy''),
              (''isActive'', JBool True), (''updateName'', JFun ''updateName'')]
             ''.u-new.cy@x.io.Cy.1700000000.1700007200'')))"
proof -
  have login: "fst (LoginUserHandler_execute (PrismaUserRepository mem_prisma) (BcryptAdapter mem_bcrypt)
          (JwtTokenAdapter (mem_jwt ''s3cret'') mem_envs)
          (LoginUserCommand (LoginUserDto ''ada@x.io'' ''Str0ng!Pass'')) world0)
     = Inr (AuthResponseDto
             [(''id'', JStr ''u-ada''), (''email'', JStr ''ada@x.io''), (''name'', JStr ''Ada''),
              (''isActive'', JBool True), (''updateName'', JFun ''updateName'')] ada_token)"
    by code_simp
  have register: "fst (RegisterUserHandler_execute (PrismaUserRepository mem_prisma)
          (BcryptAdapter mem_bcrypt)
          (JwtTokenAdapter (mem_jwt ''s3cret'') mem_envs) mem_randomUUID
          (RegisterUserCommand (RegisterUserDto ''Cy'' ''cy@x.io'' ''Str0ng!Pass'')) world0)
     = Inr (AuthResponseDto
             [(''id'', JStr ''u-new''), (''email'', JStr ''cy@x.io''), (''name'', JStr ''Cy''),
              (''isActive'', JBool True), (''updateName'', JFun ''updateName'')]
             ''.u-new.cy@x.io.Cy.1700000000.1700007200'')"
    by code_simp
  show ?thesis
    using response_user_fields [where userRepository = "PrismaUserRepository mem_prisma"
            and hasher = "BcryptAdapter mem_bcrypt"
            and tokenService = "JwtTokenAdapter (mem_jwt ''s3cret'') mem_envs"
            and uuid = mem_randomUUID and w = world0
            and em = "''ada@x.io''" and pw = "''Str0ng!Pass''" and nm = "''Ada''"]
          response_user_fields [where userRepository = "PrismaUserRepository mem_prisma"
            and hasher = "BcryptAdapter mem_bcrypt"
            and tokenService = "JwtTokenAdapter (mem_jwt ''s3cret'') mem_envs"
            and uuid = mem_randomUUID and w = world0
            and em = "''cy@x.io''" and pw = "''Str0ng!Pass''" and nm = "''Cy''"]
          login register
    by blast
qed

section \<open>Token verification\<close>

subsection \<open>The adapter returns the identity fields only\<close>

text \<open>
  C6. Whatever object the library decodes from a token, the payload that a successful
  \<open>verifyToken\<close> returns has exactly the properties id, email, name, in this order,
  with the values the decoded object has for them; \<open>iat\<close> and \<open>exp\<close>, like any other
  extra claim, are not among its properties.
\<close>

theorem verifyToken_strips_claims:
  assumes "JwtTokenAdapter_verifyToken jwt cfg tok w = (Inr payload, w1)"
  shows "ownKeys payload = [''id'', ''email'', ''name'']
         \<and> ''iat'' \<notin> set (ownKeys payload) \<and> ''exp'' \<notin> set (ownKeys payload)
         \<and> (\<exists>decoded. jwt_verify jwt tok (jwtSecret cfg) w = (Inr decoded, w1)
               \<and> payload = [(''id'', getProp decoded ''id''), (''email'', getProp decoded ''email''),
                             (''name'', getProp decoded ''name'')])"
  using assms
  by (auto simp add: JwtTokenAdapter_verifyToken_def io_defs ownKeys_def
           split: prod.splits sum.splits)

theorem verifyToken_strips_claims_witness:
  "ownKeys (ada_payload @ [(''iat'', JNum 1700000000), (''exp'', JNum 1700007200)])
     = [''id'', ''email'', ''name'', ''iat'', ''exp'']
   \<and> fst (jwt_verify (mem_jwt ''s3cret'') ada_token (jwtSecret mem_envs) world1)
     = Inr (ada_payload @ [(''iat'', JNum 1700000000), (''exp'', JNum 1700007200)])
   \<and> fst (JwtTokenAdapter_verifyToken (mem_jwt ''s3cret'') mem_envs ada_token world1) = Inr ada_payload
   \<and> ownKeys ada_payload = [''id'', ''email'', ''name'']"
proof -
  have accepted: "JwtTokenAdapter_verifyToken (mem_jwt ''s3cret'') mem_envs ada_token world1
      = (Inr ada_payload, called (Verify ada_token) world1)"
    by code_simp
  have decoded: "fst (jwt_verify (mem_jwt ''s3cret'') ada_token (jwtSecret mem_envs) world1)
     = Inr (ada_payload @ [(''iat'', JNum 1700000000), (''exp'', JNum 1700007200)])"
    by code_simp
  have keys: "ownKeys (ada_payload @ [(''iat'', JNum 1700000000), (''exp'', JNum 1700007200)])
     = [''id'', ''email'', ''name'', ''iat'', ''exp'']"
    by code_simp
  show ?thesis
    using verifyToken_strips_claims [OF accepted] accepted decoded keys by simp
qed

subsection \<open>What a failed verification reports\<close>

text \<open>
  The adapter keeps the library's reason in its 401; the handler catches that exception
  and throws its own, whose message is always "Invalid token". On the in-memory platform,
  for Ada's token two hours after it was minted:
\<close>

theorem verify_failure_message_counterexample:
  "fst (jwt_verify (mem_jwt ''s3cret'') ada_token (jwtSecret mem_envs) world_late)
     = Inl (JsError None (Some ''jwt expired''))
   \<and> fst (JwtTokenAdapter_verifyToken (mem_jwt ''s3cret'') mem_envs ada_token world_late)
     = Inl (RpcException (RpcObject 401 ''jwt expired''))
   \<and> fst (AuthController_verifyToken mem_platform ada_token world_late)
     = Inl (RpcException (RpcObject 401 ''Invalid token''))"
  by code_simp

text \<open>
  C5, as the handler implements it. For every token that the library rejects, for whatever
  reason, the verify workflow fails with status 401 and the fixed message
  "Invalid token": uniform across causes, and without the reason. The reason is in the
  exception of the adapter's \<open>verifyToken\<close>: status 401 and the library's message (or
  "Invalid token." when it has none) whenever the library threw an error object.
\<close>

theorem verify_failure_uniform:
  assumes "jwt_verify jwt tok (jwtSecret cfg) w = (Inl reason, w1)"
  shows "VerifyTokenHandler_execute (JwtTokenAdapter jwt cfg) (VerifyTokenQuery tok) w
           = (Inl (RpcException (RpcObject 401 ''Invalid token'')), w1)
         \<and> (\<forall>c m. reason = JsError c m \<longrightarrow>
               JwtTokenAdapter_verifyToken jwt cfg tok w
               = (Inl (RpcException (RpcObject 401 (nullish m ''Invalid token.''))), w1))"
  using assms
  by (cases reason)
     (simp_all add: VerifyTokenHandler_execute_def JwtTokenAdapter_def
                    JwtTokenAdapter_verifyToken_def io_defs)

theorem verify_failure_uniform_witness:
  "JwtTokenAdapter_verifyToken (mem_jwt ''s3cret'') mem_envs ''garbage'' world1
     = (Inl (RpcException (RpcObject 401 ''jwt malformed'')), called (Verify ''garbage'') world1)
   \<and> VerifyTokenHandler_execute (JwtTokenAdapter (mem_jwt ''s3cret'') mem_envs)
         (VerifyTokenQuery ''garbage'') world1
     = (Inl (RpcException (RpcObject 401 ''Invalid token'')), called (Verify ''garbage'') world1)"
proof -
  have rejected: "jwt_verify (mem_jwt ''s3cret'') ''garbage'' (jwtSecret mem_envs) world1
      = (Inl (JsError None (Some ''jwt malformed'')), called (Verify ''garbage'') world1)"
    by code_simp
  show ?thesis
    using verify_failure_uniform [OF rejected] by (simp add: nullish_def)
qed

text \<open>
  C9. Every failure of the verify workflow is the same exception, status 401 with the
  message "Invalid token". This includes the case in which the token verified and minting
  the refreshed token then failed: that failure too is caught and reported as 401, not as
  an internal error.
\<close>

theorem verify_collapses_failures:
  "(\<forall>e. fst (VerifyTokenHandler_execute tokenService query w) = Inl e
        \<longrightarrow> e = RpcException (RpcObject 401 ''Invalid token''))
   \<and> (\<forall>tok payload w1 e. verifyToken tokenService tok w = (Inr payload, w1)
          \<and> fst (generateToken tokenService payload w1) = Inl e
        \<longrightarrow> fst (VerifyTokenHandler_execute tokenService (VerifyTokenQuery tok) w)
            = Inl (RpcException (RpcObject 401 ''Invalid token'')))"
  by (cases query)
     (auto simp add: VerifyTokenHandler_execute_def io_defs split: prod.splits sum.splits)

theorem verify_collapses_failures_witness:
  "fst (generateToken (JwtTokenAdapter mem_jwt_unsigned mem_envs) ada_payload
          (called (Verify ada_token) world1))
     = Inl (Thrown (JsError None (Some ''secretOrPrivateKey must have a value'')))
   \<and> fst (VerifyTokenHandler_execute (JwtTokenAdapter mem_jwt_unsigned mem_envs)
          (VerifyTokenQuery ada_token) world1)
     = Inl (RpcException (RpcObject 401 ''Invalid token''))"
proof -
  have verified: "verifyToken (JwtTokenAdapter mem_jwt_unsigned mem_envs) ada_token world1
      = (Inr ada_payload, called (Verify ada_token) world1)"
    by code_simp
  have mint_fails: "fst (generateToken (JwtTokenAdapter mem_jwt_unsigned mem_envs) ada_payload
          (called (Verify ada_token) world1))
     = Inl (Thrown (JsError None (Some ''secretOrPrivateKey must have a value'')))"
    by code_simp
  show ?thesis
    using verify_collapses_failures [where tokenService = "JwtTokenAdapter mem_jwt_unsigned mem_envs"
            and query = "VerifyTokenQuery ada_token" and w = world1]
          verified mint_fails
    by blast
qed

subsection \<open>Refresh on verification\<close>





section \<open>The error envelope\<close>










end
